theory Spec2Isabelle
  imports Main
begin

section \<open>Data model of the warehouse table API\<close>

text \<open>
  The development embeds \<^verbatim>\<open>posthog/warehouse/api/table.py\<close>: the serializer's
  \<^verbatim>\<open>create\<close> and the view set's \<^verbatim>\<open>destroy\<close>, \<^verbatim>\<open>update_schema\<close> and
  \<^verbatim>\<open>refresh_schema\<close>. The ORM is a state record that every operation takes and
  returns; a raised exception and a returned response are the two forms of an outcome.
\<close>

text \<open>Values stored inside a structured column entry (a JSON object).\<close>

datatype json = JNull | JBool bool | JStr string

text \<open>
  An entry of \<^verbatim>\<open>table.columns\<close>: the old style is a bare string, the new style a
  dict with the keys \<^verbatim>\<open>clickhouse\<close>, \<^verbatim>\<open>hogql\<close> and \<^verbatim>\<open>valid\<close>.
\<close>

datatype column = OldStyle string | Structured "string \<rightharpoonup> json"

type_synonym catalog = "string \<rightharpoonup> column"

record DataWarehouseCredential =
  credential_id :: nat
  credential_team_id :: nat
  access_key :: string
  access_secret :: string

record DataWarehouseTable =
  table_id :: nat
  team_id :: nat
  name :: string
  format :: string
  url_pattern :: string
  created_by :: nat
  credential :: "nat option"
  external_data_source :: "nat option"
  deleted :: bool
  columns :: catalog

text \<open>
  The persisted state: the rows of both models, the queue of the task
  \<^verbatim>\<open>validate_data_warehouse_table_columns\<close>, and the next primary key to hand out.
\<close>

record database =
  tables :: "DataWarehouseTable list"
  credentials :: "DataWarehouseCredential list"
  delayed :: "(nat \<times> nat) list"
  next_id :: nat

datatype response = Response nat "string option"

datatype exn = Http404 | KeyError string | TypeError | ValidationError string | Exception string

datatype outcome = Returned response | Raised exn

text \<open>
  The three tables of the type registry are imported from modules outside this file, so
  they are parameters: which member names the enum \<^verbatim>\<open>DatabaseSerializedFieldType\<close>
  has, and the two dicts (a missing key raises \<^verbatim>\<open>KeyError\<close>). The second dict maps to
  classes, of which the code reads \<^verbatim>\<open>__name__\<close>.
\<close>

record registry =
  DatabaseSerializedFieldType :: "string \<Rightarrow> bool"
  SERIALIZED_FIELD_TO_CLICKHOUSE_MAPPING :: "string \<rightharpoonup> string"
  CLICKHOUSE_HOGQL_MAPPING :: "string \<rightharpoonup> string"

section \<open>The ORM operations the views use\<close>

text \<open>
  \<^verbatim>\<open>str.upper\<close> is Python's own, with the case tables of Unicode behind it; the views
  below take it as a parameter \<open>upper\<close>, so what is proved of them holds for text in any
  script. On ASCII text it is the function \<open>ascii_upper\<close>: a letter from a to z loses the
  bit of value 32. The examples send ASCII text only.
\<close>

definition upper_char :: "char \<Rightarrow> char" where
  "upper_char c =
     (if 97 \<le> (of_char c :: nat) \<and> (of_char c :: nat) \<le> 122
      then Char (digit0 c) (digit1 c) (digit2 c) (digit3 c) (digit4 c) False (digit6 c) (digit7 c)
      else c)"

definition ascii_upper :: "string \<Rightarrow> string" where
  "ascii_upper s = map upper_char s"

text \<open>\<^verbatim>\<open>queryset.filter(team_id=self.team_id).exclude(deleted=True)\<close>\<close>

definition safely_get_queryset :: "nat \<Rightarrow> database \<Rightarrow> DataWarehouseTable list" where
  "safely_get_queryset team db = filter (\<lambda>t. team_id t = team \<and> \<not> deleted t) (tables db)"

text \<open>\<^verbatim>\<open>self.get_object()\<close>: the row of the query set with this primary key, or 404.\<close>

definition get_object :: "nat \<Rightarrow> nat \<Rightarrow> database \<Rightarrow> DataWarehouseTable option" where
  "get_object team pk db = List.find (\<lambda>t. table_id t = pk) (safely_get_queryset team db)"

text \<open>\<^verbatim>\<open>instance.save()\<close>: update the row with this primary key, insert when there is none.\<close>

definition save :: "DataWarehouseTable \<Rightarrow> database \<Rightarrow> database" where
  "save t db =
     (if list_ex (\<lambda>r. table_id r = table_id t) (tables db)
      then db\<lparr>tables := map (\<lambda>r. if table_id r = table_id t then t else r) (tables db)\<rparr>
      else db\<lparr>tables := tables db @ [t]\<rparr>)"

section \<open>update\_schema\<close>

text \<open>The first loop: every key of \<^verbatim>\<open>updates\<close> must be a key of \<^verbatim>\<open>table.columns\<close>.\<close>

fun check_keys :: "string list \<Rightarrow> catalog \<Rightarrow> response option" where
  "check_keys [] cols = None"
| "check_keys (key # keys) cols =
     (if cols key = None
      then Some (Response 400 (Some (''Column '' @ key @ '' does not exist on table'')))
      else check_keys keys cols)"

text \<open>
  The second loop, over \<^verbatim>\<open>updates.items()\<close>, on the in-memory \<^verbatim>\<open>columns\<close>. The enum is
  looked up by the upper-cased value, the two dicts by the value as sent. Nothing is
  saved inside the loop, so leaving it early drops the changes made so far.
\<close>

fun apply_updates ::
  "(string \<Rightarrow> string) \<Rightarrow> registry \<Rightarrow> (string \<times> string) list \<Rightarrow> catalog
     \<Rightarrow> outcome + catalog" where
  "apply_updates upper reg [] cols = Inr cols"
| "apply_updates upper reg ((key, val) # rest) cols =
     (if \<not> DatabaseSerializedFieldType reg (upper val)
      then Inl (Returned (Response 400 (Some (''Can not parse type '' @ val @ '' for column ''
                  @ key @ '' - type does not exist''))))
      else
        (case cols key of
           None \<Rightarrow> Inl (Raised (KeyError key))
         | Some current_value \<Rightarrow>
             (let d = (case current_value of OldStyle _ \<Rightarrow> Map.empty | Structured d \<Rightarrow> d) in
              case SERIALIZED_FIELD_TO_CLICKHOUSE_MAPPING reg val of
                None \<Rightarrow> Inl (Raised (KeyError val))
              | Some ch \<Rightarrow>
                  (case CLICKHOUSE_HOGQL_MAPPING reg ch of
                     None \<Rightarrow> Inl (Raised (KeyError ch))
                   | Some hq \<Rightarrow>
                       apply_updates upper reg rest
                         (cols(key \<mapsto> Structured
                            (d(''clickhouse'' \<mapsto> JStr (''Nullable('' @ ch @ '')''),
                               ''hogql'' \<mapsto> JStr hq))))))))"

text \<open>
  The third loop, after the first save: \<^verbatim>\<open>columns\<close> is the very dict the table holds,
  so \<^verbatim>\<open>validate_column_type\<close> (a method of the model, a parameter here) sees the
  flags already written for the keys before.
\<close>

fun revalidate ::
  "(DataWarehouseTable \<Rightarrow> string \<Rightarrow> bool) \<Rightarrow> string list \<Rightarrow> DataWarehouseTable
     \<Rightarrow> exn + DataWarehouseTable" where
  "revalidate validate_column_type [] table = Inr table"
| "revalidate validate_column_type (key # keys) table =
     (let v = validate_column_type table key in
      case columns table key of
        None \<Rightarrow> Inl (KeyError key)
      | Some (OldStyle _) \<Rightarrow> Inl TypeError
      | Some (Structured d) \<Rightarrow>
          revalidate validate_column_type keys
            (table\<lparr>columns := (columns table)(key \<mapsto> Structured (d(''valid'' \<mapsto> JBool v)))\<rparr>))"

definition update_schema ::
  "(string \<Rightarrow> string) \<Rightarrow> registry \<Rightarrow> (DataWarehouseTable \<Rightarrow> string \<Rightarrow> bool) \<Rightarrow> nat \<Rightarrow> nat
     \<Rightarrow> (string \<times> string) list option \<Rightarrow> database \<Rightarrow> outcome \<times> database" where
  "update_schema upper reg validate_column_type team pk updates db =
     (case updates of
        None \<Rightarrow> (Returned (Response 200 None), db)
      | Some ups \<Rightarrow>
          (case get_object team pk db of
             None \<Rightarrow> (Raised Http404, db)
           | Some table \<Rightarrow>
               if external_data_source table \<noteq> None
               then (Returned (Response 400 (Some ''The table must be a manually linked table'')), db)
               else
                 (case check_keys (map fst ups) (columns table) of
                    Some r \<Rightarrow> (Returned r, db)
                  | None \<Rightarrow>
                      (case apply_updates upper reg ups (columns table) of
                         Inl out \<Rightarrow> (out, db)
                       | Inr cols \<Rightarrow>
                           (let table1 = table\<lparr>columns := cols\<rparr>;
                                db1 = save table1 db
                            in case revalidate validate_column_type (map fst ups) table1 of
                                 Inl e \<Rightarrow> (Raised e, db1)
                               | Inr table2 \<Rightarrow> (Returned (Response 200 None), save table2 db1))))))"

section \<open>create, destroy and refresh\_schema\<close>

text \<open>
  What the serializer hands to \<^verbatim>\<open>create\<close>: the writable fields of \<^verbatim>\<open>TableSerializer\<close>
  (\<^verbatim>\<open>deleted\<close> is one of them), the credential as its two fields when it is given.
\<close>

record validated_data =
  in_name :: string
  in_format :: string
  in_url_pattern :: string
  in_deleted :: bool
  in_credential :: "(string \<times> string) option"

text \<open>
  \<^verbatim>\<open>DataWarehouseTable.objects.exclude(deleted=True).filter(team_id=team_id, name=...).exists()\<close>
\<close>

definition table_name_exists :: "nat \<Rightarrow> string \<Rightarrow> database \<Rightarrow> bool" where
  "table_name_exists team nm db =
     (filter (\<lambda>t. team_id t = team \<and> name t = nm) (filter (\<lambda>t. \<not> deleted t) (tables db)) \<noteq> [])"

text \<open>\<^verbatim>\<open>DataWarehouseCredential.objects.create(...)\<close>: the row is written at once.\<close>

definition create_credential :: "nat \<Rightarrow> string \<Rightarrow> string \<Rightarrow> database \<Rightarrow> nat \<times> database" where
  "create_credential team key secret db =
     (next_id db,
      db\<lparr>credentials := credentials db @
            [\<lparr>credential_id = next_id db, credential_team_id = team,
              access_key = key, access_secret = secret\<rparr>],
         next_id := Suc (next_id db)\<rparr>)"

text \<open>\<^verbatim>\<open>DataWarehouseTable(**validated_data)\<close>: an instance in memory, not yet a row.\<close>

definition new_table :: "nat \<Rightarrow> nat \<Rightarrow> validated_data \<Rightarrow> nat option \<Rightarrow> nat \<Rightarrow> DataWarehouseTable" where
  "new_table team user data cred pk =
     \<lparr>table_id = pk, team_id = team, name = in_name data, format = in_format data,
      url_pattern = in_url_pattern data, created_by = user, credential = cred,
      external_data_source = None, deleted = in_deleted data, columns = Map.empty\<rparr>"

text \<open>
  \<^verbatim>\<open>TableSerializer.create\<close>. The model's \<^verbatim>\<open>get_columns\<close> is a parameter: it answers
  with the columns, or with the text of the exception it raised.
\<close>

definition create ::
  "(DataWarehouseTable \<Rightarrow> string + catalog) \<Rightarrow> nat \<Rightarrow> nat \<Rightarrow> validated_data \<Rightarrow> database
     \<Rightarrow> (exn + DataWarehouseTable) \<times> database" where
  "create get_columns team user data db =
     (if table_name_exists team (in_name data) db
      then (Inl (ValidationError ''Table name already exists.''), db)
      else
        (let (cred, db1) =
               (case in_credential data of
                  None \<Rightarrow> (None, db)
                | Some (key, secret) \<Rightarrow>
                    (let (cid, db') = create_credential team key secret db in (Some cid, db')));
             table = new_table team user data cred (next_id db1)
         in case get_columns table of
              Inl err \<Rightarrow> (Inl (ValidationError err), db1)
            | Inr cols \<Rightarrow>
                (let table' = table\<lparr>columns := cols\<rparr>;
                     db2 = save table' (db1\<lparr>next_id := Suc (next_id db1)\<rparr>)
                 in (Inr table', db2\<lparr>delayed := delayed db2 @ [(team, table_id table')]\<rparr>))))"

text \<open>
  Modelled from the spec: \<^verbatim>\<open>soft_delete\<close> is a method of the model, which this file
  imports. The spec says of it: set the deleted flag, no cascading physical deletion.
\<close>

definition soft_delete :: "DataWarehouseTable \<Rightarrow> database \<Rightarrow> database" where
  "soft_delete instance db = save (instance\<lparr>deleted := True\<rparr>) db"

definition destroy :: "nat \<Rightarrow> nat \<Rightarrow> database \<Rightarrow> outcome \<times> database" where
  "destroy team pk db =
     (case get_object team pk db of
        None \<Rightarrow> (Raised Http404, db)
      | Some instance \<Rightarrow>
          if external_data_source instance \<noteq> None
          then (Returned (Response 400 (Some ''Can't delete a sourced table'')), db)
          else (Returned (Response 204 None), soft_delete instance db))"

text \<open>\<^verbatim>\<open>refresh_schema\<close>: an exception of \<^verbatim>\<open>get_columns\<close> is not caught here.\<close>

definition refresh_schema ::
  "(DataWarehouseTable \<Rightarrow> string + catalog) \<Rightarrow> nat \<Rightarrow> nat \<Rightarrow> database \<Rightarrow> outcome \<times> database" where
  "refresh_schema get_columns team pk db =
     (case get_object team pk db of
        None \<Rightarrow> (Raised Http404, db)
      | Some table \<Rightarrow>
          (case get_columns table of
             Inl err \<Rightarrow> (Raised (Exception err), db)
           | Inr cols \<Rightarrow> (Returned (Response 200 None), save (table\<lparr>columns := cols\<rparr>) db)))"

section \<open>Notions the properties use\<close>

text \<open>
  The entry the second loop leaves for a column: the old entry (an empty dict for the old
  style) with the two type keys overwritten.
\<close>

definition retyped :: "column \<Rightarrow> string \<Rightarrow> string \<Rightarrow> (string \<rightharpoonup> json)" where
  "retyped cur ch hq =
     (case cur of OldStyle _ \<Rightarrow> Map.empty | Structured d \<Rightarrow> d)
       (''clickhouse'' \<mapsto> JStr (''Nullable('' @ ch @ '')''), ''hogql'' \<mapsto> JStr hq)"

text \<open>
  The compatibility check is a function of the table as it is in memory. That it answers
  the same on a second, equal request means: the \<^verbatim>\<open>valid\<close> flag stored for a column does
  not enter the verdict on that column.
\<close>

definition verdict_ignores_flag :: "(DataWarehouseTable \<Rightarrow> string \<Rightarrow> bool) \<Rightarrow> bool" where
  "verdict_ignores_flag validate_column_type \<longleftrightarrow>
     (\<forall>table key d b. columns table key = Some (Structured d) \<longrightarrow>
        validate_column_type
          (table\<lparr>columns := (columns table)(key \<mapsto> Structured (d(''valid'' \<mapsto> JBool b)))\<rparr>) key
        = validate_column_type table key)"

section \<open>Example data\<close>

text \<open>
  Modelled from the spec: the registry tables live in \<^verbatim>\<open>posthog.schema\<close> and
  \<^verbatim>\<open>posthog.warehouse.models.table\<close>, outside this file. The spec's example sends
  \<^verbatim>\<open>STRING\<close> and expects the native type \<^verbatim>\<open>Nullable(String)\<close> and the string type id;
  this instance has that entry and two more of the same shape.
\<close>

definition example_registry :: registry where
  "example_registry =
     \<lparr>DatabaseSerializedFieldType = (\<lambda>n. n \<in> set [''STRING'', ''FLOAT'', ''INTEGER'']),
      SERIALIZED_FIELD_TO_CLICKHOUSE_MAPPING =
        [''STRING'' \<mapsto> ''String'', ''FLOAT'' \<mapsto> ''Float64'', ''INTEGER'' \<mapsto> ''Int64''],
      CLICKHOUSE_HOGQL_MAPPING =
        [''String'' \<mapsto> ''StringDatabaseField'', ''Float64'' \<mapsto> ''FloatDatabaseField'',
         ''Int64'' \<mapsto> ''IntegerDatabaseField'']\<rparr>"

text \<open>A compatibility check that accepts string and float columns.\<close>

definition example_validate :: "DataWarehouseTable \<Rightarrow> string \<Rightarrow> bool" where
  "example_validate table key =
     (case columns table key of
        Some (Structured d) \<Rightarrow>
          d ''clickhouse'' = Some (JStr ''Nullable(String)'') \<or>
          d ''clickhouse'' = Some (JStr ''Nullable(Float64)'')
      | _ \<Rightarrow> False)"

text \<open>A schema probe that reads Parquet sources and fails on anything else.\<close>

definition example_get_columns :: "DataWarehouseTable \<Rightarrow> string + catalog" where
  "example_get_columns table =
     (if format table = ''Parquet''
      then Inr [''amount'' \<mapsto> Structured [''clickhouse'' \<mapsto> JStr ''Nullable(Float64)'',
                                            ''hogql'' \<mapsto> JStr ''FloatDatabaseField'',
                                            ''valid'' \<mapsto> JBool True],
                ''currency'' \<mapsto> Structured [''clickhouse'' \<mapsto> JStr ''Nullable(String)'',
                                              ''hogql'' \<mapsto> JStr ''StringDatabaseField'',
                                              ''valid'' \<mapsto> JBool True]]
      else Inl ''Could not reach the bucket'')"

definition manual_table :: DataWarehouseTable where
  "manual_table =
     \<lparr>table_id = 7, team_id = 1, name = ''payments'', format = ''Parquet'',
      url_pattern = ''s3://bucket/payments/*'', created_by = 3, credential = None,
      external_data_source = None, deleted = False,
      columns = [''amount'' \<mapsto> Structured [''clickhouse'' \<mapsto> JStr ''Nullable(Float64)'',
                                           ''hogql'' \<mapsto> JStr ''FloatDatabaseField'',
                                           ''valid'' \<mapsto> JBool False],
                 ''id'' \<mapsto> OldStyle ''Nullable(Int64)'']\<rparr>"

definition sourced_table :: DataWarehouseTable where
  "sourced_table =
     \<lparr>table_id = 8, team_id = 1, name = ''stripe_charge'', format = ''Parquet'',
      url_pattern = ''s3://bucket/stripe/*'', created_by = 3, credential = None,
      external_data_source = Some 5, deleted = False,
      columns = [''amount'' \<mapsto> Structured [''clickhouse'' \<mapsto> JStr ''Nullable(Float64)'',
                                           ''hogql'' \<mapsto> JStr ''FloatDatabaseField'',
                                           ''valid'' \<mapsto> JBool True]]\<rparr>"

definition example_db :: database where
  "example_db =
     \<lparr>tables = [manual_table, sourced_table], credentials = [], delayed = [], next_id = 9\<rparr>"

text \<open>
  The name \<^verbatim>\<open>payments\<close> held by a soft-deleted table of team 1 and by a live table of
  team 2.
\<close>

definition reuse_db :: database where
  "reuse_db =
     \<lparr>tables = [manual_table\<lparr>deleted := True\<rparr>, manual_table\<lparr>table_id := 11, team_id := 2\<rparr>],
      credentials = [], delayed = [], next_id = 12\<rparr>"

definition refunds_input :: validated_data where
  "refunds_input =
     \<lparr>in_name = ''refunds'', in_format = ''CSV'', in_url_pattern = ''s3://bucket/refunds/*'',
      in_deleted = False, in_credential = Some (''AKIA'', ''secret'')\<rparr>"

definition payments_input :: validated_data where
  "payments_input =
     \<lparr>in_name = ''payments'', in_format = ''Parquet'', in_url_pattern = ''s3://bucket/payments/*'',
      in_deleted = False, in_credential = None\<rparr>"

lemmas example_defs = example_db_def manual_table_def sourced_table_def example_registry_def
  get_object_def safely_get_queryset_def ascii_upper_def upper_char_def

section \<open>Lemmas on the ORM operations\<close>

lemma upper_char_code:
  "(of_char (upper_char c) :: nat) =
     (if 97 \<le> (of_char c :: nat) \<and> (of_char c :: nat) \<le> 122 then of_char c - 32 else of_char c)"
  by (cases c) (auto simp: upper_char_def of_char_def)

lemma find_SomeD: "List.find P xs = Some x \<Longrightarrow> x \<in> set xs \<and> P x"
  by (induction xs) (auto split: if_splits)

lemma get_object_SomeD:
  "get_object team pk db = Some t \<Longrightarrow>
     t \<in> set (tables db) \<and> table_id t = pk \<and> team_id t = team \<and> \<not> deleted t"
  by (auto simp: get_object_def safely_get_queryset_def dest!: find_SomeD)

lemma find_replaced:
  "\<exists>r\<in>set xs. table_id r = table_id t' \<Longrightarrow> team_id t' = team \<Longrightarrow> \<not> deleted t' \<Longrightarrow>
   List.find (\<lambda>t. table_id t = table_id t')
     (filter (\<lambda>t. team_id t = team \<and> \<not> deleted t)
        (map (\<lambda>r. if table_id r = table_id t' then t' else r) xs)) = Some t'"
  by (induction xs) auto

lemma find_deleted_none:
  "deleted t' \<Longrightarrow>
   List.find (\<lambda>t. table_id t = table_id t')
     (filter (\<lambda>t. team_id t = team \<and> \<not> deleted t)
        (map (\<lambda>r. if table_id r = table_id t' then t' else r) xs)) = None"
  by (induction xs) auto

text \<open>A saved instance that is still visible is what the next request loads.\<close>

lemma get_object_save:
  assumes "get_object team pk db = Some t" "table_id t' = pk" "team_id t' = team" "\<not> deleted t'"
  shows "get_object team pk (save t' db) = Some t'"
proof -
  from get_object_SomeD[OF assms(1)] have "\<exists>r\<in>set (tables db). table_id r = table_id t'"
    using assms(2) by auto
  then show ?thesis
    using find_replaced[of "tables db" t' team] assms
    by (simp add: get_object_def safely_get_queryset_def save_def list_ex_iff)
qed

lemma map_replace_same:
  "\<forall>r\<in>set xs. table_id r = table_id t \<longrightarrow> r = t \<Longrightarrow>
   map (\<lambda>r. if table_id r = table_id t then t else r) xs = xs"
  by (induction xs) auto

lemma save_twice: "save t (save t db) = save t db"
proof (cases "list_ex (\<lambda>r. table_id r = table_id t) (tables db)")
  case True
  then have ex: "list_ex (\<lambda>r. table_id r = table_id t)
      (map (\<lambda>r. if table_id r = table_id t then t else r) (tables db))"
    by (auto simp: list_ex_iff)
  have "map (\<lambda>r. if table_id r = table_id t then t else r)
      (map (\<lambda>r. if table_id r = table_id t then t else r) (tables db))
      = map (\<lambda>r. if table_id r = table_id t then t else r) (tables db)"
    by (rule map_replace_same) auto
  with True ex show ?thesis by (simp add: save_def)
next
  case False
  then have "map (\<lambda>r. if table_id r = table_id t then t else r) (tables db) = tables db"
    by (intro map_replace_same) (auto simp: list_ex_iff)
  with False show ?thesis by (simp add: save_def)
qed

lemma mem_save: "t \<in> set (tables (save t db))"
  by (auto simp: save_def list_ex_iff)

lemma table_name_exists_iff:
  "table_name_exists team nm db \<longleftrightarrow>
     (\<exists>t\<in>set (tables db). \<not> deleted t \<and> team_id t = team \<and> name t = nm)"
  by (auto simp: table_name_exists_def filter_empty_conv)

section \<open>Lemmas on the loops of update\_schema\<close>

lemma check_keys_missing:
  "\<exists>key\<in>set keys. cols key = None \<Longrightarrow>
   \<exists>key\<in>set keys. cols key = None \<and>
     check_keys keys cols = Some (Response 400 (Some (''Column '' @ key @ '' does not exist on table'')))"
  by (induction keys) auto

lemma check_keys_present: "\<forall>key\<in>set keys. cols key \<noteq> None \<Longrightarrow> check_keys keys cols = None"
  by (induction keys) auto

text \<open>
  The type loop stops at the first value the enum does not know, when the values before
  it went through both dicts.
\<close>

lemma apply_updates_unknown_type:
  assumes "\<exists>(key, val)\<in>set ups. \<not> DatabaseSerializedFieldType reg (upper val)"
    and "\<forall>(key, val)\<in>set ups. DatabaseSerializedFieldType reg (upper val) \<longrightarrow>
           (\<exists>ch. SERIALIZED_FIELD_TO_CLICKHOUSE_MAPPING reg val = Some ch \<and>
                 CLICKHOUSE_HOGQL_MAPPING reg ch \<noteq> None)"
    and "\<forall>key\<in>fst ` set ups. cols key \<noteq> None"
  shows "\<exists>(key, val)\<in>set ups. \<not> DatabaseSerializedFieldType reg (upper val) \<and>
           apply_updates upper reg ups cols =
             Inl (Returned (Response 400 (Some (''Can not parse type '' @ val @ '' for column ''
                  @ key @ '' - type does not exist''))))"
  using assms
proof (induction ups arbitrary: cols)
  case Nil then show ?case by simp
next
  case (Cons u ups)
  obtain key val where u: "u = (key, val)" by (cases u)
  show ?case
  proof (cases "DatabaseSerializedFieldType reg (upper val)")
    case False
    with u show ?thesis by simp
  next
    case True
    with Cons.prems(2) u obtain ch hq where
      m: "SERIALIZED_FIELD_TO_CLICKHOUSE_MAPPING reg val = Some ch"
         "CLICKHOUSE_HOGQL_MAPPING reg ch = Some hq"
      by auto
    from Cons.prems(3) u obtain cur where c: "cols key = Some cur" by auto
    let ?cols = "cols(key \<mapsto> Structured
        ((case cur of OldStyle _ \<Rightarrow> Map.empty | Structured d \<Rightarrow> d)
           (''clickhouse'' \<mapsto> JStr (''Nullable('' @ ch @ '')''), ''hogql'' \<mapsto> JStr hq)))"
    have step: "apply_updates upper reg (u # ups) cols = apply_updates upper reg ups ?cols"
      using True u m c by simp
    have "\<exists>(key, val)\<in>set ups. \<not> DatabaseSerializedFieldType reg (upper val)"
      using Cons.prems(1) True u by auto
    moreover have "\<forall>(key, val)\<in>set ups. DatabaseSerializedFieldType reg (upper val) \<longrightarrow>
           (\<exists>ch. SERIALIZED_FIELD_TO_CLICKHOUSE_MAPPING reg val = Some ch \<and>
                 CLICKHOUSE_HOGQL_MAPPING reg ch \<noteq> None)"
      using Cons.prems(2) by auto
    moreover have "\<forall>key\<in>fst ` set ups. ?cols key \<noteq> None"
      using Cons.prems(3) by auto
    ultimately have "\<exists>(key, val)\<in>set ups. \<not> DatabaseSerializedFieldType reg (upper val) \<and>
           apply_updates upper reg ups ?cols =
             Inl (Returned (Response 400 (Some (''Can not parse type '' @ val @ '' for column ''
                  @ key @ '' - type does not exist''))))"
      by (rule Cons.IH)
    with step show ?thesis by auto
  qed
qed

lemma apply_updates_single:
  assumes "cols k = Some cur"
    and "DatabaseSerializedFieldType reg (upper v)"
    and "SERIALIZED_FIELD_TO_CLICKHOUSE_MAPPING reg v = Some ch"
    and "CLICKHOUSE_HOGQL_MAPPING reg ch = Some hq"
  shows "apply_updates upper reg [(k, v)] cols = Inr (cols(k \<mapsto> Structured (retyped cur ch hq)))"
  using assms by (simp add: retyped_def)

text \<open>One accepted update, run through both phases and both saves.\<close>

lemma update_schema_single:
  assumes "get_object team pk db = Some table"
    and "external_data_source table = None"
    and "columns table k = Some cur"
    and "DatabaseSerializedFieldType reg (upper v)"
    and "SERIALIZED_FIELD_TO_CLICKHOUSE_MAPPING reg v = Some ch"
    and "CLICKHOUSE_HOGQL_MAPPING reg ch = Some hq"
  shows "update_schema upper reg validate_column_type team pk (Some [(k, v)]) db =
     (Returned (Response 200 None),
      save (table\<lparr>columns := (columns table)(k \<mapsto> Structured ((retyped cur ch hq)
              (''valid'' \<mapsto> JBool (validate_column_type
                  (table\<lparr>columns := (columns table)(k \<mapsto> Structured (retyped cur ch hq))\<rparr>) k))))\<rparr>)
        (save (table\<lparr>columns := (columns table)(k \<mapsto> Structured (retyped cur ch hq))\<rparr>) db))"
  using assms apply_updates_single[where upper = upper and cols = "columns table", OF assms(3-6)]
  by (simp add: update_schema_def Let_def del: apply_updates.simps)

text \<open>The same accepted update sent twice: the second request changes nothing.\<close>

lemma update_schema_twice:
  assumes "get_object team pk db = Some table"
    and "external_data_source table = None"
    and "columns table k = Some cur"
    and "DatabaseSerializedFieldType reg (upper v)"
    and "SERIALIZED_FIELD_TO_CLICKHOUSE_MAPPING reg v = Some ch"
    and "CLICKHOUSE_HOGQL_MAPPING reg ch = Some hq"
    and "verdict_ignores_flag validate_column_type"
    and "update_schema upper reg validate_column_type team pk (Some [(k, v)]) db = (out1, db1)"
    and "update_schema upper reg validate_column_type team pk (Some [(k, v)]) db1 = (out2, db2)"
  shows "out1 = Returned (Response 200 None) \<and> out2 = Returned (Response 200 None) \<and>
         (\<exists>t1 t2 d. get_object team pk db1 = Some t1 \<and> get_object team pk db2 = Some t2 \<and>
            columns t1 k = Some (Structured d) \<and> columns t2 k = Some (Structured d)) \<and>
         db2 = db1"
proof -
  define d1 where "d1 = retyped cur ch hq"
  define t1 where "t1 = table\<lparr>columns := (columns table)(k \<mapsto> Structured d1)\<rparr>"
  define b where "b = validate_column_type t1 k"
  define d2 where "d2 = d1(''valid'' \<mapsto> JBool b)"
  define t2 where "t2 = table\<lparr>columns := (columns table)(k \<mapsto> Structured d2)\<rparr>"
  from get_object_SomeD[OF assms(1)]
  have t: "table_id table = pk" "team_id table = team" "\<not> deleted table" by simp_all
  from update_schema_single[where upper = upper and validate_column_type = validate_column_type,
      OF assms(1-6)] assms(8)
  have first: "out1 = Returned (Response 200 None)" "db1 = save t2 (save t1 db)"
    by (simp_all add: d1_def t1_def b_def d2_def t2_def)
  have "get_object team pk (save t1 db) = Some t1"
    by (rule get_object_save[OF assms(1)]) (simp_all add: t t1_def)
  then have g1: "get_object team pk db1 = Some t2"
    unfolding first(2) by (rule get_object_save) (simp_all add: t t2_def)
  have src: "external_data_source t2 = None" and col: "columns t2 k = Some (Structured d2)"
    using assms(2) by (simp_all add: t2_def)
  have r: "retyped (Structured d2) ch hq = d2"
    by (auto simp: retyped_def fun_eq_iff d2_def d1_def)
  have u: "t2\<lparr>columns := (columns t2)(k \<mapsto> Structured d2)\<rparr> = t2"
    by (simp add: t2_def)
  have "columns t1 k = Some (Structured d1)" by (simp add: t1_def)
  from assms(7)[unfolded verdict_ignores_flag_def, rule_format, OF this, of b]
  have vb: "validate_column_type t2 k = b" by (simp add: t1_def t2_def d2_def b_def)
  have f: "d2(''valid'' \<mapsto> JBool b) = d2" by (simp add: d2_def)
  have same: "save t2 db1 = db1" unfolding first(2) by (rule save_twice)
  have "update_schema upper reg validate_column_type team pk (Some [(k, v)]) db1 =
          (Returned (Response 200 None), db1)"
    using update_schema_single[where upper = upper and validate_column_type = validate_column_type,
        OF g1 src col assms(4-6)]
    by (simp only: r u vb f same)
  with assms(9) have second: "out2 = Returned (Response 200 None)" "db2 = db1" by simp_all
  from first(1) second g1 col show ?thesis by simp
qed

section \<open>Properties of update\_schema\<close>

text \<open>
  C1. On a table without an external data source, for a key \<open>k\<close> of its columns and a
  value \<open>v\<close> the registry accepts (the enum knows \<open>upper v\<close>, the first dict maps \<open>v\<close> to a
  storage type \<open>ch\<close>, the second maps \<open>ch\<close> to \<open>hq\<close>), the request \<open>{k: v}\<close> answers 200.
  Phase 1 leaves for \<open>k\<close> the old entry with \<^verbatim>\<open>clickhouse\<close> set to \<open>Nullable(ch)\<close> and
  \<^verbatim>\<open>hogql\<close> set to \<open>hq\<close>; phase 2 sets \<^verbatim>\<open>valid\<close> to the verdict of the compatibility
  check on the table as phase 1 left it, and that entry is what is stored. The witness is
  the column \<^verbatim>\<open>amount\<close> with the value \<^verbatim>\<open>STRING\<close>.
\<close>

theorem update_schema_sets_types:
  assumes "get_object team pk db = Some table"
    and "external_data_source table = None"
    and "columns table k = Some cur"
    and "DatabaseSerializedFieldType reg (upper v)"
    and "SERIALIZED_FIELD_TO_CLICKHOUSE_MAPPING reg v = Some ch"
    and "CLICKHOUSE_HOGQL_MAPPING reg ch = Some hq"
  shows "\<exists>d1 table1 db'.
      d1 = (case cur of OldStyle _ \<Rightarrow> Map.empty | Structured d \<Rightarrow> d)
             (''clickhouse'' \<mapsto> JStr (''Nullable('' @ ch @ '')''), ''hogql'' \<mapsto> JStr hq)
    \<and> table1 = table\<lparr>columns := (columns table)(k \<mapsto> Structured d1)\<rparr>
    \<and> apply_updates upper reg [(k, v)] (columns table) = Inr (columns table1)
    \<and> update_schema upper reg validate_column_type team pk (Some [(k, v)]) db =
        (Returned (Response 200 None), db')
    \<and> get_object team pk db' =
        Some (table\<lparr>columns := (columns table)(k \<mapsto> Structured
                (d1(''valid'' \<mapsto> JBool (validate_column_type table1 k))))\<rparr>)"
proof -
  let ?t1 = "table\<lparr>columns := (columns table)(k \<mapsto> Structured (retyped cur ch hq))\<rparr>"
  let ?t2 = "table\<lparr>columns := (columns table)(k \<mapsto> Structured ((retyped cur ch hq)
              (''valid'' \<mapsto> JBool (validate_column_type ?t1 k))))\<rparr>"
  from get_object_SomeD[OF assms(1)]
  have t: "table_id table = pk" "team_id table = team" "\<not> deleted table" by simp_all
  have "get_object team pk (save ?t1 db) = Some ?t1"
    by (rule get_object_save[OF assms(1)]) (simp_all add: t)
  then have "get_object team pk (save ?t2 (save ?t1 db)) = Some ?t2"
    by (rule get_object_save) (simp_all add: t)
  moreover note update_schema_single[where upper = upper and validate_column_type = validate_column_type,
      OF assms]
    apply_updates_single[where upper = upper and cols = "columns table", OF assms(3-6)]
  ultimately show ?thesis
    by (simp add: retyped_def del: apply_updates.simps)
qed

theorem update_schema_sets_types_witness:
  "get_object 1 7 example_db = Some manual_table \<and> external_data_source manual_table = None \<and>
   columns manual_table ''amount'' =
     Some (Structured [''clickhouse'' \<mapsto> JStr ''Nullable(Float64)'',
                       ''hogql'' \<mapsto> JStr ''FloatDatabaseField'', ''valid'' \<mapsto> JBool False]) \<and>
   DatabaseSerializedFieldType example_registry (ascii_upper ''STRING'') \<and>
   SERIALIZED_FIELD_TO_CLICKHOUSE_MAPPING example_registry ''STRING'' = Some ''String'' \<and>
   CLICKHOUSE_HOGQL_MAPPING example_registry ''String'' = Some ''StringDatabaseField'' \<and>
   (\<exists>db' table' d.
      update_schema ascii_upper example_registry example_validate 1 7 (Some [(''amount'', ''STRING'')]) example_db =
        (Returned (Response 200 None), db') \<and>
      get_object 1 7 db' = Some table' \<and>
      columns table' ''amount'' = Some (Structured d) \<and>
      d ''clickhouse'' = Some (JStr ''Nullable(String)'') \<and>
      d ''hogql'' = Some (JStr ''StringDatabaseField'') \<and>
      d ''valid'' = Some (JBool True) \<and>
      columns table' ''id'' = Some (OldStyle ''Nullable(Int64)''))"
proof -
  have h1: "get_object 1 7 example_db = Some manual_table" by (simp add: example_defs)
  have h2: "external_data_source manual_table = None" by (simp add: example_defs)
  have h3: "columns manual_table ''amount'' =
     Some (Structured [''clickhouse'' \<mapsto> JStr ''Nullable(Float64)'',
                       ''hogql'' \<mapsto> JStr ''FloatDatabaseField'', ''valid'' \<mapsto> JBool False])"
    by (simp add: example_defs)
  have h4: "DatabaseSerializedFieldType example_registry (ascii_upper ''STRING'')"
    by (simp add: example_defs)
  have h5: "SERIALIZED_FIELD_TO_CLICKHOUSE_MAPPING example_registry ''STRING'' = Some ''String''"
    by (simp add: example_defs)
  have h6: "CLICKHOUSE_HOGQL_MAPPING example_registry ''String'' = Some ''StringDatabaseField''"
    by (simp add: example_defs)
  have i: "columns manual_table ''id'' = Some (OldStyle ''Nullable(Int64)'')"
    by (simp add: example_defs)
  from update_schema_sets_types[where upper = ascii_upper and validate_column_type = example_validate,
      OF h1 h2 h3 h4 h5 h6] h1 h2 h3 h4 h5 h6 i
  show ?thesis by (auto simp: example_validate_def)
qed

text \<open>
  C2. On a table linked to an external data source, every request that carries an
  \<^verbatim>\<open>updates\<close> payload is answered 400 with the message that the table must be a manually
  linked one, and the state (the stored columns with it) is untouched.
\<close>

theorem update_schema_sourced_table:
  assumes "get_object team pk db = Some table"
    and "external_data_source table \<noteq> None"
  shows "update_schema upper reg validate_column_type team pk (Some ups) db =
           (Returned (Response 400 (Some ''The table must be a manually linked table'')), db)"
  using assms by (simp add: update_schema_def)

theorem update_schema_sourced_table_witness:
  "get_object 1 8 example_db = Some sourced_table \<and> external_data_source sourced_table \<noteq> None \<and>
   update_schema ascii_upper example_registry example_validate 1 8 (Some [(''amount'', ''STRING'')]) example_db =
     (Returned (Response 400 (Some ''The table must be a manually linked table'')), example_db)"
proof -
  have h1: "get_object 1 8 example_db = Some sourced_table" by (simp add: example_defs)
  have h2: "external_data_source sourced_table \<noteq> None" by (simp add: example_defs)
  from update_schema_sourced_table[where upper = ascii_upper, OF h1 h2] h1 h2 show ?thesis by simp
qed

text \<open>
  Where the type loop does answer 400: every key of the updates is a column, some value is
  unknown to the enum, and each value the enum knows goes through both dicts. The answer
  names one value unknown to the enum, and the state is untouched: the entries rewritten
  in memory for the keys before it are never saved.
\<close>

lemma update_schema_unknown_type_mapped:
  assumes "get_object team pk db = Some table"
    and "external_data_source table = None"
    and "\<forall>key\<in>fst ` set ups. columns table key \<noteq> None"
    and "\<exists>(key, val)\<in>set ups. \<not> DatabaseSerializedFieldType reg (upper val)"
    and "\<forall>(key, val)\<in>set ups. DatabaseSerializedFieldType reg (upper val) \<longrightarrow>
           (\<exists>ch. SERIALIZED_FIELD_TO_CLICKHOUSE_MAPPING reg val = Some ch \<and>
                 CLICKHOUSE_HOGQL_MAPPING reg ch \<noteq> None)"
  shows "\<exists>(key, val)\<in>set ups. \<not> DatabaseSerializedFieldType reg (upper val) \<and>
           update_schema upper reg validate_column_type team pk (Some ups) db =
             (Returned (Response 400 (Some (''Can not parse type '' @ val @ '' for column ''
                  @ key @ '' - type does not exist''))), db)"
proof -
  have "check_keys (map fst ups) (columns table) = None"
    using assms(3) by (intro check_keys_present) simp
  moreover from apply_updates_unknown_type[where upper = upper, OF assms(4,5,3)]
  obtain key val where "(key, val) \<in> set ups" "\<not> DatabaseSerializedFieldType reg (upper val)"
    "apply_updates upper reg ups (columns table) =
       Inl (Returned (Response 400 (Some (''Can not parse type '' @ val @ '' for column ''
                  @ key @ '' - type does not exist''))))"
    by blast
  ultimately show ?thesis
    using assms(1,2) by (intro bexI[of _ "(key, val)"]) (simp_all add: update_schema_def)
qed

lemma update_schema_unknown_type_mapped_example:
  "get_object 1 7 example_db = Some manual_table \<and> external_data_source manual_table = None \<and>
   update_schema ascii_upper example_registry example_validate 1 7
       (Some [(''amount'', ''STRING''), (''id'', ''bogus'')]) example_db =
     (Returned (Response 400 (Some ''Can not parse type bogus for column id - type does not exist'')),
      example_db)"
proof -
  let ?ups = "[(''amount'', ''STRING''), (''id'', ''bogus'')]"
  have h1: "get_object 1 7 example_db = Some manual_table" by (simp add: example_defs)
  have h2: "external_data_source manual_table = None" by (simp add: example_defs)
  have h3: "\<forall>key\<in>fst ` set ?ups. columns manual_table key \<noteq> None" by (simp add: example_defs)
  have h4: "\<exists>(key, val)\<in>set ?ups. \<not> DatabaseSerializedFieldType example_registry (ascii_upper val)"
    by (simp add: example_defs)
  have h5: "\<forall>(key, val)\<in>set ?ups. DatabaseSerializedFieldType example_registry (ascii_upper val) \<longrightarrow>
       (\<exists>ch. SERIALIZED_FIELD_TO_CLICKHOUSE_MAPPING example_registry val = Some ch \<and>
             CLICKHOUSE_HOGQL_MAPPING example_registry ch \<noteq> None)"
    by (simp add: example_defs)
  have p: "DatabaseSerializedFieldType example_registry (ascii_upper ''STRING'')"
    by (simp add: example_defs)
  from update_schema_unknown_type_mapped[where upper = ascii_upper and validate_column_type = example_validate,
      OF h1 h2 h3 h4 h5] h1 h2 p
  show ?thesis by auto
qed

text \<open>
  Whatever stops the type loop, an answer or an exception, nothing has been saved.
\<close>

lemma update_schema_type_loop_keeps_state:
  assumes "get_object team pk db = Some table"
    and "external_data_source table = None"
    and "\<forall>key\<in>fst ` set ups. columns table key \<noteq> None"
    and "apply_updates upper reg ups (columns table) = Inl out"
  shows "update_schema upper reg validate_column_type team pk (Some ups) db = (out, db)"
proof -
  have "check_keys (map fst ups) (columns table) = None"
    using assms(3) by (intro check_keys_present) simp
  with assms(1,2,4) show ?thesis by (simp add: update_schema_def)
qed

text \<open>
  A value the enum knows by its upper-cased form and the first dict does not have as
  sent: line 247 reads the dict outside the \<^verbatim>\<open>try\<close>, and the request ends in
  \<^verbatim>\<open>KeyError\<close>, whatever the entries after it are.
\<close>

lemma update_schema_unmapped_type:
  assumes "get_object team pk db = Some table"
    and "external_data_source table = None"
    and "\<forall>key\<in>fst ` set ((k, v) # rest). columns table key \<noteq> None"
    and "DatabaseSerializedFieldType reg (upper v)"
    and "SERIALIZED_FIELD_TO_CLICKHOUSE_MAPPING reg v = None"
  shows "update_schema upper reg validate_column_type team pk (Some ((k, v) # rest)) db =
           (Raised (KeyError v), db)"
proof -
  from assms(3) obtain cur where "columns table k = Some cur" by auto
  with assms(4,5) have "apply_updates upper reg ((k, v) # rest) (columns table) =
      Inl (Raised (KeyError v))"
    by simp
  from update_schema_type_loop_keeps_state[OF assms(1-3) this] show ?thesis .
qed

text \<open>
  C4. The claim: when every key is a column and some requested type does not resolve in
  the registry, the answer is the 400 that the type does not exist, and nothing is stored.
  The view does not give that answer here. Both keys are columns; \<^verbatim>\<open>bogus\<close> is unknown to
  the enum; \<^verbatim>\<open>String\<close> passes the enum check, which asks for \<^verbatim>\<open>STRING\<close>, and is no key of
  the first dict, which is asked for \<^verbatim>\<open>String\<close>. The request ends in \<^verbatim>\<open>KeyError\<close> before
  \<^verbatim>\<open>bogus\<close> is looked at. The state is untouched.
\<close>

theorem update_schema_unresolved_type_raises:
  "get_object 1 7 example_db = Some manual_table \<and> external_data_source manual_table = None \<and>
   columns manual_table ''amount'' \<noteq> None \<and> columns manual_table ''id'' \<noteq> None \<and>
   DatabaseSerializedFieldType example_registry (ascii_upper ''String'') \<and>
   SERIALIZED_FIELD_TO_CLICKHOUSE_MAPPING example_registry ''String'' = None \<and>
   \<not> DatabaseSerializedFieldType example_registry (ascii_upper ''bogus'') \<and>
   update_schema ascii_upper example_registry example_validate 1 7
       (Some [(''amount'', ''String''), (''id'', ''bogus'')]) example_db =
     (Raised (KeyError ''String''), example_db)"
  by (simp add: update_schema_def example_defs)

text \<open>
  C5. On a table without an external data source, when some key of the updates is not a
  column of the table, the answer is 400 with the message that this column does not exist,
  for one such key, and the state is untouched.
\<close>

theorem update_schema_unknown_column:
  assumes "get_object team pk db = Some table"
    and "external_data_source table = None"
    and "\<exists>key\<in>fst ` set ups. columns table key = None"
  shows "\<exists>key\<in>fst ` set ups. columns table key = None \<and>
           update_schema upper reg validate_column_type team pk (Some ups) db =
             (Returned (Response 400 (Some (''Column '' @ key @ '' does not exist on table''))), db)"
proof -
  from assms(3) have "\<exists>key\<in>set (map fst ups). columns table key = None" by simp
  from check_keys_missing[OF this] obtain key where
    "key \<in> set (map fst ups)" "columns table key = None"
    "check_keys (map fst ups) (columns table) =
       Some (Response 400 (Some (''Column '' @ key @ '' does not exist on table'')))"
    by blast
  with assms(1,2) show ?thesis
    by (intro bexI[of _ key]) (simp_all add: update_schema_def)
qed

theorem update_schema_unknown_column_witness:
  "get_object 1 7 example_db = Some manual_table \<and> external_data_source manual_table = None \<and>
   columns manual_table ''nonexistent'' = None \<and>
   update_schema ascii_upper example_registry example_validate 1 7
       (Some [(''amount'', ''STRING''), (''nonexistent'', ''STRING'')]) example_db =
     (Returned (Response 400 (Some ''Column nonexistent does not exist on table'')), example_db)"
proof -
  have h1: "get_object 1 7 example_db = Some manual_table" by (simp add: example_defs)
  have h2: "external_data_source manual_table = None" by (simp add: example_defs)
  have h3: "\<exists>key\<in>fst ` set [(''amount'', ''STRING''), (''nonexistent'', ''STRING'')].
              columns manual_table key = None" by (simp add: example_defs)
  have c: "columns manual_table ''amount'' \<noteq> None" "columns manual_table ''nonexistent'' = None"
    by (simp_all add: example_defs)
  from update_schema_unknown_column[where upper = ascii_upper and reg = example_registry
      and validate_column_type = example_validate, OF h1 h2 h3] h1 h2 c
  show ?thesis by auto
qed

text \<open>
  C7. On a table without an external data source, for a key \<open>k\<close> of its columns and a
  value \<open>v\<close> the registry accepts, sending \<open>{k: v}\<close> twice gives 200 both times, the entry
  stored for \<open>k\<close> after the second request is the one stored after the first, and so is
  the whole state; the compatibility check is taken to answer the same both times, that
  is, not to read the flag it wrote.
\<close>

theorem update_schema_idempotent:
  assumes "get_object team pk db = Some table"
    and "external_data_source table = None"
    and "columns table k = Some cur"
    and "DatabaseSerializedFieldType reg (upper v)"
    and "SERIALIZED_FIELD_TO_CLICKHOUSE_MAPPING reg v = Some ch"
    and "CLICKHOUSE_HOGQL_MAPPING reg ch = Some hq"
    and "verdict_ignores_flag validate_column_type"
  shows "case update_schema upper reg validate_column_type team pk (Some [(k, v)]) db of (out1, db1) \<Rightarrow>
         case update_schema upper reg validate_column_type team pk (Some [(k, v)]) db1 of (out2, db2) \<Rightarrow>
           out1 = Returned (Response 200 None) \<and> out2 = Returned (Response 200 None) \<and>
           (\<exists>t1 t2 d. get_object team pk db1 = Some t1 \<and> get_object team pk db2 = Some t2 \<and>
              columns t1 k = Some (Structured d) \<and> columns t2 k = Some (Structured d)) \<and>
           db2 = db1"
proof -
  let ?u = "update_schema upper reg validate_column_type team pk (Some [(k, v)])"
  obtain out1 db1 where r1: "?u db = (out1, db1)" by (cases "?u db")
  obtain out2 db2 where r2: "?u db1 = (out2, db2)" by (cases "?u db1")
  from update_schema_twice[where upper = upper, OF assms r1 r2] r1 r2 show ?thesis by auto
qed

theorem update_schema_idempotent_witness:
  "get_object 1 7 example_db = Some manual_table \<and> external_data_source manual_table = None \<and>
   columns manual_table ''id'' = Some (OldStyle ''Nullable(Int64)'') \<and>
   DatabaseSerializedFieldType example_registry (ascii_upper ''INTEGER'') \<and>
   SERIALIZED_FIELD_TO_CLICKHOUSE_MAPPING example_registry ''INTEGER'' = Some ''Int64'' \<and>
   CLICKHOUSE_HOGQL_MAPPING example_registry ''Int64'' = Some ''IntegerDatabaseField'' \<and>
   verdict_ignores_flag example_validate \<and>
   (case update_schema ascii_upper example_registry example_validate 1 7 (Some [(''id'', ''INTEGER'')]) example_db
    of (out1, db1) \<Rightarrow>
      case update_schema ascii_upper example_registry example_validate 1 7 (Some [(''id'', ''INTEGER'')]) db1
      of (out2, db2) \<Rightarrow>
        out1 = Returned (Response 200 None) \<and> out2 = Returned (Response 200 None) \<and>
        (\<exists>t1 t2 d. get_object 1 7 db1 = Some t1 \<and> get_object 1 7 db2 = Some t2 \<and>
           columns t1 ''id'' = Some (Structured d) \<and> columns t2 ''id'' = Some (Structured d)) \<and>
        db2 = db1)"
proof -
  have h1: "get_object 1 7 example_db = Some manual_table" by (simp add: example_defs)
  have h2: "external_data_source manual_table = None" by (simp add: example_defs)
  have h3: "columns manual_table ''id'' = Some (OldStyle ''Nullable(Int64)'')"
    by (simp add: example_defs)
  have h4: "DatabaseSerializedFieldType example_registry (ascii_upper ''INTEGER'')"
    by (simp add: example_defs)
  have h5: "SERIALIZED_FIELD_TO_CLICKHOUSE_MAPPING example_registry ''INTEGER'' = Some ''Int64''"
    by (simp add: example_defs)
  have h6: "CLICKHOUSE_HOGQL_MAPPING example_registry ''Int64'' = Some ''IntegerDatabaseField''"
    by (simp add: example_defs)
  have h7: "verdict_ignores_flag example_validate"
    by (simp add: verdict_ignores_flag_def example_validate_def)
  from update_schema_idempotent[where upper = ascii_upper, OF h1 h2 h3 h4 h5 h6 h7] h1 h2 h3 h4 h5 h6 h7
  show ?thesis by blast
qed

text \<open>
  C10. When the request carries no \<^verbatim>\<open>updates\<close>, the view answers 200 at once: no table is
  looked up, no precondition is checked (so a sourced table, or no table at all, makes no
  difference), and the state is returned as it was.
\<close>

theorem update_schema_absent_updates:
  "update_schema upper reg validate_column_type team pk None db = (Returned (Response 200 None), db)"
  by (simp add: update_schema_def)

section \<open>Properties of create\<close>

text \<open>
  C3, as the code has it. When the name is free and \<^verbatim>\<open>get_columns\<close> raises, \<^verbatim>\<open>create\<close>
  raises a \<^verbatim>\<open>ValidationError\<close> with the text of that exception; no table row is written
  and no validation task is queued. Without credential fields the state is untouched.
  With them, the credential row was written before \<^verbatim>\<open>get_columns\<close> ran and nothing
  takes it back: it is the one row added.
\<close>

theorem create_synchronizer_failure:
  assumes "\<not> table_name_exists team (in_name data) db"
    and "\<forall>cred pk. get_columns (new_table team user data cred pk) = Inl err"
  shows "\<exists>db'. create get_columns team user data db = (Inl (ValidationError err), db') \<and>
           tables db' = tables db \<and> delayed db' = delayed db \<and>
           (in_credential data = None \<longrightarrow> db' = db) \<and>
           (\<forall>key secret. in_credential data = Some (key, secret) \<longrightarrow>
              credentials db' = credentials db @
                [\<lparr>credential_id = next_id db, credential_team_id = team,
                  access_key = key, access_secret = secret\<rparr>])"
  using assms
  by (cases "in_credential data") (auto simp: create_def create_credential_def Let_def)

theorem create_synchronizer_failure_witness:
  "\<not> table_name_exists 1 (in_name refunds_input) example_db \<and>
   (\<forall>cred pk. example_get_columns (new_table 1 3 refunds_input cred pk) =
      Inl ''Could not reach the bucket'') \<and>
   in_credential refunds_input = Some (''AKIA'', ''secret'') \<and>
   (\<exists>db'. create example_get_columns 1 3 refunds_input example_db =
        (Inl (ValidationError ''Could not reach the bucket''), db') \<and>
      tables db' = tables example_db \<and> delayed db' = delayed example_db \<and>
      credentials db' =
        [\<lparr>credential_id = 9, credential_team_id = 1, access_key = ''AKIA'',
          access_secret = ''secret''\<rparr>])"
proof -
  have h1: "\<not> table_name_exists 1 (in_name refunds_input) example_db"
    by (simp add: table_name_exists_def refunds_input_def example_defs)
  have h2: "\<forall>cred pk. example_get_columns (new_table 1 3 refunds_input cred pk) =
      Inl ''Could not reach the bucket''"
    by (simp add: example_get_columns_def new_table_def refunds_input_def)
  have h3: "in_credential refunds_input = Some (''AKIA'', ''secret'')"
    by (simp add: refunds_input_def)
  have e: "credentials example_db = []" "next_id example_db = 9"
    by (simp_all add: example_db_def)
  from create_synchronizer_failure[OF h1 h2] h1 h2 h3 e show ?thesis by auto
qed

text \<open>
  The claim as written fails here: the probe cannot read the CSV source, creation is
  refused, and the credential made from the supplied fields is in the state afterwards,
  which held none before.
\<close>

theorem create_synchronizer_failure_counterexample:
  "create example_get_columns 1 3 refunds_input example_db =
     (Inl (ValidationError ''Could not reach the bucket''),
      example_db\<lparr>credentials :=
          [\<lparr>credential_id = 9, credential_team_id = 1, access_key = ''AKIA'',
            access_secret = ''secret''\<rparr>],
        next_id := 10\<rparr>) \<and>
   credentials example_db = []"
  by (simp add: create_def create_credential_def table_name_exists_def example_get_columns_def
      refunds_input_def example_db_def manual_table_def sourced_table_def new_table_def)

text \<open>
  C6. When a table of the same team with the same name exists and is not deleted,
  \<^verbatim>\<open>create\<close> raises the \<^verbatim>\<open>ValidationError\<close> that the name already exists and the state
  is untouched. When every table of that team with that name is soft-deleted (tables of
  other teams do not count), the name check passes: with \<^verbatim>\<open>get_columns\<close> answering, the
  table is returned, it is a row of the new state, and its validation task is queued.
\<close>

theorem create_name_unique_among_live_tables:
  "((\<exists>t\<in>set (tables db). \<not> deleted t \<and> team_id t = team \<and> name t = in_name data) \<longrightarrow>
      create get_columns team user data db =
        (Inl (ValidationError ''Table name already exists.''), db)) \<and>
   ((\<forall>t\<in>set (tables db). team_id t = team \<and> name t = in_name data \<longrightarrow> deleted t) \<and>
    (\<forall>cred pk. \<exists>cols. get_columns (new_table team user data cred pk) = Inr cols) \<longrightarrow>
      (\<exists>table db'. create get_columns team user data db = (Inr table, db') \<and>
         table \<in> set (tables db') \<and> name table = in_name data \<and> team_id table = team \<and>
         (team, table_id table) \<in> set (delayed db')))"
proof (intro conjI impI)
  assume "\<exists>t\<in>set (tables db). \<not> deleted t \<and> team_id t = team \<and> name t = in_name data"
  then show "create get_columns team user data db =
        (Inl (ValidationError ''Table name already exists.''), db)"
    by (simp add: create_def table_name_exists_iff)
next
  assume a: "(\<forall>t\<in>set (tables db). team_id t = team \<and> name t = in_name data \<longrightarrow> deleted t) \<and>
    (\<forall>cred pk. \<exists>cols. get_columns (new_table team user data cred pk) = Inr cols)"
  then have n: "\<not> table_name_exists team (in_name data) db"
    by (auto simp: table_name_exists_iff)
  obtain cred db1 where c: "(case in_credential data of
                  None \<Rightarrow> (None, db)
                | Some (key, secret) \<Rightarrow>
                    (let (cid, db') = create_credential team key secret db in (Some cid, db')))
           = (cred, db1)"
    by fastforce
  from a obtain cols where
    g: "get_columns (new_table team user data cred (next_id db1)) = Inr cols" by blast
  let ?t = "new_table team user data cred (next_id db1)\<lparr>columns := cols\<rparr>"
  let ?db2 = "save ?t (db1\<lparr>next_id := Suc (next_id db1)\<rparr>)"
  have "create get_columns team user data db =
          (Inr ?t, ?db2\<lparr>delayed := delayed ?db2 @ [(team, table_id ?t)]\<rparr>)"
    using n c g by (simp add: create_def Let_def)
  moreover have "?t \<in> set (tables ?db2)" by (rule mem_save)
  moreover have "name ?t = in_name data" "team_id ?t = team" by (simp_all add: new_table_def)
  ultimately show "\<exists>table db'. create get_columns team user data db = (Inr table, db') \<and>
         table \<in> set (tables db') \<and> name table = in_name data \<and> team_id table = team \<and>
         (team, table_id table) \<in> set (delayed db')"
    by simp
qed

theorem create_name_unique_witness:
  "(\<exists>t\<in>set (tables example_db). \<not> deleted t \<and> team_id t = 1 \<and> name t = in_name payments_input) \<and>
   create example_get_columns 1 3 payments_input example_db =
     (Inl (ValidationError ''Table name already exists.''), example_db) \<and>
   \<not> (\<exists>t\<in>set (tables reuse_db). team_id t = 1 \<and> name t = in_name payments_input \<and> \<not> deleted t) \<and>
   (\<exists>t\<in>set (tables reuse_db). team_id t = 1 \<and> name t = in_name payments_input) \<and>
   (\<exists>t\<in>set (tables reuse_db). team_id t = 2 \<and> name t = in_name payments_input \<and> \<not> deleted t) \<and>
   (\<forall>cred pk. \<exists>cols. example_get_columns (new_table 1 3 payments_input cred pk) = Inr cols) \<and>
   (\<exists>table db'. create example_get_columns 1 3 payments_input reuse_db = (Inr table, db') \<and>
      table \<in> set (tables db') \<and> name table = ''payments'' \<and> team_id table = 1 \<and>
      (1, table_id table) \<in> set (delayed db'))"
proof -
  have h1: "\<exists>t\<in>set (tables example_db). \<not> deleted t \<and> team_id t = 1 \<and> name t = in_name payments_input"
    by (simp add: payments_input_def example_defs)
  have h2: "\<forall>t\<in>set (tables reuse_db). team_id t = 1 \<and> name t = in_name payments_input \<longrightarrow> deleted t"
    by (simp add: payments_input_def reuse_db_def example_defs)
  have h3: "\<forall>cred pk. \<exists>cols. example_get_columns (new_table 1 3 payments_input cred pk) = Inr cols"
    by (simp add: example_get_columns_def new_table_def payments_input_def)
  have e: "\<exists>t\<in>set (tables reuse_db). team_id t = 1 \<and> name t = in_name payments_input"
    "\<exists>t\<in>set (tables reuse_db). team_id t = 2 \<and> name t = in_name payments_input \<and> \<not> deleted t"
    by (simp_all add: payments_input_def reuse_db_def example_defs)
  have n: "in_name payments_input = ''payments''" by (simp add: payments_input_def)
  from create_name_unique_among_live_tables[of example_db 1 payments_input example_get_columns 3]
    create_name_unique_among_live_tables[of reuse_db 1 payments_input example_get_columns 3]
    h1 h2 h3 e n
  show ?thesis by auto
qed

section \<open>Properties of refresh\_schema and destroy\<close>

text \<open>
  C8. \<^verbatim>\<open>refresh_schema\<close> on a table whose \<^verbatim>\<open>get_columns\<close> answers with \<open>cols\<close> stores
  \<open>cols\<close> as the table's columns, nothing of the old columns being kept, and answers 200.
  When \<^verbatim>\<open>get_columns\<close> answers \<open>cols\<close> again for the refreshed table (the source did not
  change), a second refresh answers 200 and leaves the state as the first one left it.
\<close>

theorem refresh_schema_overwrites:
  assumes "get_object team pk db = Some table"
    and "get_columns table = Inr cols"
  shows "\<exists>db1. refresh_schema get_columns team pk db = (Returned (Response 200 None), db1) \<and>
           get_object team pk db1 = Some (table\<lparr>columns := cols\<rparr>) \<and>
           (get_columns (table\<lparr>columns := cols\<rparr>) = Inr cols \<longrightarrow>
              refresh_schema get_columns team pk db1 = (Returned (Response 200 None), db1))"
proof -
  let ?t = "table\<lparr>columns := cols\<rparr>"
  from get_object_SomeD[OF assms(1)]
  have t: "table_id table = pk" "team_id table = team" "\<not> deleted table" by simp_all
  have g: "get_object team pk (save ?t db) = Some ?t"
    by (rule get_object_save[OF assms(1)]) (simp_all add: t)
  have "save (?t\<lparr>columns := cols\<rparr>) (save ?t db) = save ?t db"
    using save_twice[of ?t db] by simp
  with g assms show ?thesis by (simp add: refresh_schema_def)
qed

theorem refresh_schema_overwrites_witness:
  "get_object 1 7 example_db = Some manual_table \<and>
   columns manual_table ''id'' \<noteq> None \<and>
   (\<exists>cols db1. example_get_columns manual_table = Inr cols \<and>
      example_get_columns (manual_table\<lparr>columns := cols\<rparr>) = Inr cols \<and>
      cols ''id'' = None \<and> cols ''currency'' \<noteq> None \<and>
      refresh_schema example_get_columns 1 7 example_db = (Returned (Response 200 None), db1) \<and>
      get_object 1 7 db1 = Some (manual_table\<lparr>columns := cols\<rparr>) \<and>
      refresh_schema example_get_columns 1 7 db1 = (Returned (Response 200 None), db1))"
proof -
  let ?cols = "[''amount'' \<mapsto> Structured [''clickhouse'' \<mapsto> JStr ''Nullable(Float64)'',
                                            ''hogql'' \<mapsto> JStr ''FloatDatabaseField'',
                                            ''valid'' \<mapsto> JBool True],
                ''currency'' \<mapsto> Structured [''clickhouse'' \<mapsto> JStr ''Nullable(String)'',
                                              ''hogql'' \<mapsto> JStr ''StringDatabaseField'',
                                              ''valid'' \<mapsto> JBool True]]"
  have h1: "get_object 1 7 example_db = Some manual_table" by (simp add: example_defs)
  have h2: "example_get_columns manual_table = Inr ?cols"
    by (simp add: example_get_columns_def manual_table_def)
  have h3: "example_get_columns (manual_table\<lparr>columns := ?cols\<rparr>) = Inr ?cols"
    by (simp add: example_get_columns_def manual_table_def)
  have c: "?cols ''id'' = None" "?cols ''currency'' \<noteq> None" by simp_all
  have o: "columns manual_table ''id'' \<noteq> None" by (simp add: manual_table_def)
  from refresh_schema_overwrites[where get_columns = example_get_columns, OF h1 h2] h1 h2 h3 c o
  show ?thesis by blast
qed

text \<open>
  C9. \<^verbatim>\<open>destroy\<close> on a table linked to an external data source answers 400 with the
  message that a sourced table cannot be deleted, and the state (columns and deleted flag
  with it) is untouched. On a table without one it answers 204; the rows with this key
  carry the instance with its deleted flag set and its columns as they were, every other
  row and every credential is as before, no row is removed, and the table is no longer in
  the query set.
\<close>

theorem destroy_sourced_or_soft_delete:
  assumes "get_object team pk db = Some instance"
  shows "(external_data_source instance \<noteq> None \<longrightarrow>
            destroy team pk db =
              (Returned (Response 400 (Some ''Can't delete a sourced table'')), db)) \<and>
         (external_data_source instance = None \<longrightarrow>
            (\<exists>db'. destroy team pk db = (Returned (Response 204 None), db') \<and>
               tables db' = map (\<lambda>r. if table_id r = pk then instance\<lparr>deleted := True\<rparr> else r)
                              (tables db) \<and>
               instance\<lparr>deleted := True\<rparr> \<in> set (tables db') \<and>
               length (tables db') = length (tables db) \<and>
               credentials db' = credentials db \<and>
               get_object team pk db' = None))"
proof -
  from get_object_SomeD[OF assms]
  have t: "instance \<in> set (tables db)" "table_id instance = pk" by simp_all
  then have ex: "list_ex (\<lambda>r. table_id r = pk) (tables db)" by (auto simp: list_ex_iff)
  let ?t = "instance\<lparr>deleted := True\<rparr>"
  have s: "save ?t db = db\<lparr>tables := map (\<lambda>r. if table_id r = pk then ?t else r) (tables db)\<rparr>"
    using ex t by (simp add: save_def)
  have m: "?t \<in> set (tables (save ?t db))" by (rule mem_save)
  have g: "get_object team pk (save ?t db) = None"
    using find_deleted_none[of ?t team "tables db"] t
    by (simp add: s get_object_def safely_get_queryset_def)
  show ?thesis
    using assms s m g by (simp add: destroy_def soft_delete_def)
qed

theorem destroy_sourced_or_soft_delete_witness:
  "get_object 1 8 example_db = Some sourced_table \<and> external_data_source sourced_table \<noteq> None \<and>
   destroy 1 8 example_db = (Returned (Response 400 (Some ''Can't delete a sourced table'')), example_db) \<and>
   get_object 1 7 example_db = Some manual_table \<and> external_data_source manual_table = None \<and>
   destroy 1 7 example_db =
     (Returned (Response 204 None),
      example_db\<lparr>tables := [manual_table\<lparr>deleted := True\<rparr>, sourced_table]\<rparr>)"
proof -
  have h1: "get_object 1 8 example_db = Some sourced_table" by (simp add: example_defs)
  have h2: "external_data_source sourced_table \<noteq> None" by (simp add: example_defs)
  have h3: "get_object 1 7 example_db = Some manual_table" by (simp add: example_defs)
  have h4: "external_data_source manual_table = None" by (simp add: example_defs)
  have t: "tables example_db = [manual_table, sourced_table]"
    "table_id manual_table = 7" "table_id sourced_table = 8"
    by (simp_all add: example_defs)
  from destroy_sourced_or_soft_delete[OF h3] h4 obtain db' where
    d: "destroy 1 7 example_db = (Returned (Response 204 None), db')"
       "tables db' = map (\<lambda>r. if table_id r = 7 then manual_table\<lparr>deleted := True\<rparr> else r)
                        (tables example_db)"
    by blast
  then have "db' = example_db\<lparr>tables := [manual_table\<lparr>deleted := True\<rparr>, sourced_table]\<rparr>"
    using h3 h4 by (auto simp: destroy_def soft_delete_def save_def t)
  with destroy_sourced_or_soft_delete[OF h1] h1 h2 h3 h4 d show ?thesis by simp
qed

end
